theory Spec2Isabelle
  imports Main "HOL-Library.AList"
begin

section \<open>JavaScript values\<close>

text \<open>
  The values that rows, stored objects and query results are made of. A number of
  JavaScript is a double. \<open>JNum n\<close> is the integer \<open>n\<close> as a number, and the model computes
  with it only where \<open>n\<close> is a safe integer, of magnitude below \<open>2 ^ 53\<close>, where doubles are
  exact and the text of a number is its decimal digits. \<open>JNaN\<close> is the number that
  \<open>parseInt\<close> yields on text without digits. An object is its list of properties in
  insertion order. \<open>JJson ps\<close> is a string: the JSON text that serializes the object \<open>ps\<close>.
  What depends on floating point is not computed: \<open>JParseFloat x\<close> stands for the number
  \<open>parseFloat(x)\<close>, and \<open>JParseInt x\<close> for the number \<open>parseInt(x, 10)\<close> where the model
  does not compute it.
\<close>

datatype jsval =
    JUndefined
  | JNull
  | JBool bool
  | JNaN
  | JNum int
  | JStr string
  | JJson "(string \<times> jsval) list"
  | JArr "jsval list"
  | JObj "(string \<times> jsval) list"
  | JParseFloat jsval
  | JParseInt jsval

type_synonym props = "(string \<times> jsval) list"

text \<open>\<open>obj[name]\<close> for reading: an absent property reads as \<open>undefined\<close>.\<close>

definition js_get :: "props \<Rightarrow> string \<Rightarrow> jsval" where
  "js_get ps name = (case map_of ps name of None \<Rightarrow> JUndefined | Some v \<Rightarrow> v)"

text \<open>\<open>obj[name] = v\<close>: an existing property keeps its place, a new one is added last.\<close>

definition js_set :: "props \<Rightarrow> string \<Rightarrow> jsval \<Rightarrow> props" where
  "js_set ps name v = AList.update name v ps"

text \<open>\<open>goog.isDef(x)\<close> is \<open>x !== undefined\<close>.\<close>

definition isDef :: "jsval \<Rightarrow> bool" where
  "isDef x = (x \<noteq> JUndefined)"

text \<open>
  \<open>arr[i] = v\<close> on an array: JavaScript extends the array when \<open>i\<close> is beyond its end, and
  the slots in between read as \<open>undefined\<close>.
\<close>

definition js_array_set :: "jsval list \<Rightarrow> nat \<Rightarrow> jsval \<Rightarrow> jsval list" where
  "js_array_set xs i v =
     (if i < length xs then xs[i := v]
      else xs @ replicate (i - length xs) JUndefined @ [v])"

subsection \<open>\<open>parseInt(x, 10)\<close>\<close>

text \<open>
  \<open>parseInt\<close> turns its argument into text, skips leading white space, reads an optional
  sign and then the longest run of decimal digits; with no digit the result is \<open>NaN\<close>.
  The digits of a safe integer give that integer. More digits give a double that is
  rounded, a number beyond the safe integers has a text of its own (the text of \<open>1e21\<close>
  begins with \<open>1e\<close>), and a minus sign before zeros gives the negative zero: these
  results are left as \<open>JParseInt\<close> of the argument, and so is the result on text that
  begins, after the white space of ASCII, with a character outside ASCII, which may be
  white space of Unicode. The text of an array is the text of
  its elements joined by commas, so an array is read as its first element is; the text of
  an object and JSON text begin with a bracket or a brace.
\<close>

definition safe_integer :: "int \<Rightarrow> bool" where
  "safe_integer n = (\<bar>n\<bar> < 9007199254740992)"

definition is_digit :: "char \<Rightarrow> bool" where
  "is_digit c = (c \<in> set ''0123456789'')"

definition digit_val :: "char \<Rightarrow> int" where
  "digit_val c = int (of_char c) - 48"

definition is_space :: "char \<Rightarrow> bool" where
  "is_space c = (of_char c \<in> {9, 10, 11, 12, 13, 32 :: nat})"

definition digits_val :: "string \<Rightarrow> int" where
  "digits_val ds = foldl (\<lambda>n c. 10 * n + digit_val c) 0 ds"

definition parse_digits :: "string \<Rightarrow> int option" where
  "parse_digits s =
     (let ds = takeWhile is_digit s
      in if ds = [] then None else Some (digits_val ds))"

definition parseInt_digits :: "string \<Rightarrow> bool \<Rightarrow> string \<Rightarrow> jsval" where
  "parseInt_digits s negative ds =
     (case parse_digits ds of
        None \<Rightarrow> JNaN
      | Some n \<Rightarrow>
          if safe_integer n \<and> \<not> (negative \<and> n = 0)
          then JNum (if negative then - n else n) else JParseInt (JStr s))"

definition parseInt_text :: "string \<Rightarrow> jsval" where
  "parseInt_text s =
     (case dropWhile is_space s of
        [] \<Rightarrow> JNaN
      | c # cs \<Rightarrow>
          if (of_char c :: nat) \<ge> 128 then JParseInt (JStr s)
          else if c = CHR ''-'' then parseInt_digits s True cs
          else if c = CHR ''+'' then parseInt_digits s False cs
          else parseInt_digits s False (c # cs))"

fun parseInt :: "jsval \<Rightarrow> jsval" where
  "parseInt (JNum n) = (if safe_integer n then JNum n else JParseInt (JNum n))"
| "parseInt (JStr s) = parseInt_text s"
| "parseInt (JArr (x # xs)) = parseInt x"
| "parseInt (JParseFloat x) = JParseInt (JParseFloat x)"
| "parseInt (JParseInt x) = JParseInt (JParseInt x)"
| "parseInt x = JNaN"

definition parseFloat :: "jsval \<Rightarrow> jsval" where
  "parseFloat x = JParseFloat x"

section \<open>The schema (consumed interface)\<close>

text \<open>
  \<open>ydn.db.DataType\<close>, \<open>ydn.db.IndexSchema\<close>, \<open>ydn.db.StoreSchema\<close> and
  \<open>ydn.db.DatabaseSchema\<close> are declared outside the files verified here; the records hold
  the fields that the request executor reads.
\<close>

datatype DataType = INTEGER | FLOAT | TEXT

record IndexSchema =
  idx_name :: string
  idx_type :: DataType
  idx_unique :: bool

record StoreSchema =
  st_name :: string
  keyPath :: "string option"
  indexes :: "IndexSchema list"

type_synonym DatabaseSchema = "StoreSchema list"

text \<open>
  Modelled from the spec: \<open>DatabaseSchema.getStore(name)\<close>, which is not among the files
  verified here. It yields the store of that name, and nothing when the schema has none;
  the executor tests its result with \<open>if (!table)\<close>.
\<close>

definition getStore :: "DatabaseSchema \<Rightarrow> string \<Rightarrow> StoreSchema option" where
  "getStore schema n = find (\<lambda>st. st_name st = n) schema"

text \<open>
  Modelled from the spec: the constants \<open>ydn.db.DEFAULT_BLOB_COLUMN\<close> and
  \<open>ydn.db.SQLITE_SPECIAL_COLUNM_NAME\<close>, the column that holds the serialized object and
  the row id column.
\<close>

definition DEFAULT_BLOB_COLUMN :: string where
  "DEFAULT_BLOB_COLUMN = ''_default_''"

definition SQLITE_SPECIAL_COLUNM_NAME :: string where
  "SQLITE_SPECIAL_COLUNM_NAME = ''_ROWID_''"

text \<open>
  Modelled from the spec: \<open>ydn.json.parse\<close> and \<open>ydn.json.stringify\<close>, the external JSON
  utility. JSON has no \<open>undefined\<close> and no \<open>NaN\<close>: a property whose value is undefined is
  left out, an undefined array element and \<open>NaN\<close> are written as \<open>null\<close>. Parsing the text
  of an object reads the object back; a cell that holds no such text parses to the empty
  object.
\<close>

fun json_value :: "jsval \<Rightarrow> jsval" where
  "json_value JNaN = JNull"
| "json_value (JArr xs) = JArr (map (\<lambda>x. if x = JUndefined then JNull else json_value x) xs)"
| "json_value (JObj ps) =
     JObj (map (\<lambda>(k, v). (k, json_value v)) (filter (\<lambda>(k, v). v \<noteq> JUndefined) ps))"
| "json_value x = x"

definition json_stringify :: "props \<Rightarrow> jsval" where
  "json_stringify ps = (case json_value (JObj ps) of JObj ps' \<Rightarrow> JJson ps' | _ \<Rightarrow> JJson [])"

definition json_parse :: "jsval \<Rightarrow> props" where
  "json_parse cell = (case cell of JJson ps \<Rightarrow> ps | _ \<Rightarrow> [])"

text \<open>
  Modelled from the spec: \<open>StoreSchema.setKey(obj, key)\<close>, which reinstates the primary key
  under the declared key path; a store without key path has no property to set.
\<close>

definition setKey :: "StoreSchema \<Rightarrow> props \<Rightarrow> jsval \<Rightarrow> props" where
  "setKey table obj key = (case keyPath table of None \<Rightarrow> obj | Some kp \<Rightarrow> js_set obj kp key)"

text \<open>
  Modelled from the spec: \<open>StoreSchema.getSQLKeyColumnName()\<close>, the name of the column that
  holds the primary key: the key path, or the row id column of a store without key path.
\<close>

definition getSQLKeyColumnName :: "StoreSchema \<Rightarrow> string" where
  "getSQLKeyColumnName table =
     (case keyPath table of None \<Rightarrow> SQLITE_SPECIAL_COLUNM_NAME | Some kp \<Rightarrow> kp)"

section \<open>Row decoding (\<open>parseRow\<close>)\<close>

text \<open>
  A native row is an object whose properties are the cells of the columns: numbers, text
  or \<open>null\<close>, and the JSON text of the stored object in the default column.
  \<open>row[table.keyPath]\<close> of a store without key path reads the property named by the text
  of \<open>undefined\<close>.
\<close>

definition row_key :: "StoreSchema \<Rightarrow> props \<Rightarrow> jsval" where
  "row_key table row =
     js_get row (case keyPath table of None \<Rightarrow> ''undefined'' | Some kp \<Rightarrow> kp)"

text \<open>One turn of the loop over \<open>table.indexes\<close>, with its two \<open>continue\<close> statements.\<close>

definition parseRow_index :: "props \<Rightarrow> props \<Rightarrow> IndexSchema \<Rightarrow> props" where
  "parseRow_index row val ix =
     (if idx_name ix = DEFAULT_BLOB_COLUMN then val
      else let x = js_get row (idx_name ix)
           in if \<not> isDef x then val
              else let x' = (if idx_type ix = INTEGER then parseInt x
                             else if idx_type ix = FLOAT then parseFloat x
                             else x)
                   in js_set val (idx_name ix) x')"

definition parseRow :: "StoreSchema \<Rightarrow> props \<Rightarrow> props" where
  "parseRow table row =
     (let val = json_parse (js_get row DEFAULT_BLOB_COLUMN);
          key = row_key table row;
          val = setKey table val key
      in foldl (parseRow_index row) val (indexes table))"

section \<open>The query object (iterable_query.js)\<close>

text \<open>
  A query carries its pipeline stages as nullable function fields; \<open>None\<close> stands for
  \<open>null\<close>, the value the constructor of \<open>ydn.db.req.IterableQuery\<close> stores for a stage that
  was not supplied, and \<open>goog.isFunction\<close> holds of the others. The type \<open>'v\<close> is the type of
  the values that flow through the stages; the third argument of \<open>reduce\<close> is a row
  position. The fields \<open>map\<close> and \<open>filter\<close> of the source are \<open>map_fn\<close> and \<open>filter_fn\<close>
  here.
\<close>

datatype scan_direction = Next | Prev

record KeyRange =
  kr_lower :: jsval
  kr_upper :: jsval
  kr_lowerOpen :: bool
  kr_upperOpen :: bool

record 'v IterableQuery =
  store_name :: string
  index :: "string option"
  keyRange :: "KeyRange option"
  direction :: scan_direction
  initial :: "(unit \<Rightarrow> 'v) option"
  map_fn :: "('v \<Rightarrow> 'v) option"
  reduce :: "('v \<Rightarrow> 'v \<Rightarrow> nat \<Rightarrow> 'v) option"
  finalize :: "('v \<Rightarrow> 'v) option"
  filter_fn :: "('v \<Rightarrow> bool) option"
  continued :: "('v \<Rightarrow> bool) option"

text \<open>
  The constructor \<open>ydn.db.req.IterableQuery(store, index, keyRange, filter, continued)\<close>:
  the four stages of the prototype are set to \<open>null\<close>, \<open>filter\<close> and \<open>continued\<close> are taken
  from the arguments. The scan direction is left to the base class, which scans forward.
\<close>

definition new_IterableQuery ::
  "string \<Rightarrow> string option \<Rightarrow> KeyRange option \<Rightarrow> ('v \<Rightarrow> bool) option \<Rightarrow> ('v \<Rightarrow> bool) option
     \<Rightarrow> 'v IterableQuery" where
  "new_IterableQuery store ix kr f c =
     \<lparr>store_name = store, index = ix, keyRange = kr, direction = Next, initial = None,
      map_fn = None, reduce = None, finalize = None, filter_fn = f, continued = c\<rparr>"

text \<open>
  A where condition (\<open>ydn.db.Where\<close>): the field it constrains, the two bounds, either of
  which may be undefined (\<open>None\<close>), and the open flag of each side. Bounds and field values
  are drawn from one ordered key domain \<open>'k\<close>.
\<close>

record 'k Where =
  field :: string
  lower :: "'k option"
  lowerOpen :: bool
  upper :: "'k option"
  upperOpen :: bool

text \<open>
  An object, as far as the where filter reads it: \<open>obj[name]\<close> is \<open>None\<close> when the property
  is undefined. A relational comparison with an undefined operand is false in JavaScript.
\<close>

type_synonym 'k obj = "string \<Rightarrow> 'k option"

fun js_lt :: "'k::linorder option \<Rightarrow> 'k \<Rightarrow> bool" where
  "js_lt None b = False"
| "js_lt (Some a) b = (a < b)"

fun js_le :: "'k::linorder option \<Rightarrow> 'k \<Rightarrow> bool" where
  "js_le None b = False"
| "js_le (Some a) b = (a \<le> b)"

fun js_gt :: "'k::linorder option \<Rightarrow> 'k \<Rightarrow> bool" where
  "js_gt None b = False"
| "js_gt (Some a) b = (a > b)"

fun js_ge :: "'k::linorder option \<Rightarrow> 'k \<Rightarrow> bool" where
  "js_ge None b = False"
| "js_ge (Some a) b = (a \<ge> b)"

text \<open>
  \<open>processWhereAsFilter\<close>: \<open>prev_filter\<close> is \<open>goog.functions.TRUE\<close> unless the query already
  has a filter; the new filter reads \<open>obj[where.field]\<close>, computes \<open>ok1\<close> and \<open>ok2\<close> with
  the comparisons of the source, and returns \<open>prev_filter(obj) && ok1 && ok2\<close>.
\<close>

definition where_filter :: "'k::linorder Where \<Rightarrow> ('k obj \<Rightarrow> bool) \<Rightarrow> 'k obj \<Rightarrow> bool" where
  "where_filter w prev_filter obj =
     (let val = obj (field w);
          ok1 = (case lower w of
                   None \<Rightarrow> True
                 | Some lo \<Rightarrow> if lowerOpen w then js_lt val lo else js_le val lo);
          ok2 = (case upper w of
                   None \<Rightarrow> True
                 | Some up \<Rightarrow> if upperOpen w then js_gt val up else js_ge val up)
      in prev_filter obj \<and> ok1 \<and> ok2)"

definition processWhereAsFilter ::
  "'k::linorder Where \<Rightarrow> 'k obj IterableQuery \<Rightarrow> 'k obj IterableQuery" where
  "processWhereAsFilter w q =
     (let prev_filter = (case filter_fn q of None \<Rightarrow> (\<lambda>obj. True) | Some f \<Rightarrow> f)
      in q\<lparr>filter_fn := Some (where_filter w prev_filter)\<rparr>)"

text \<open>
  The range of a where condition in the words of the specification: a value lies within
  the range when it is above the lower bound (strictly when \<open>lowerOpen\<close>, at or above
  otherwise) and below the upper bound (strictly when \<open>upperOpen\<close>, at or below otherwise);
  an absent bound does not constrain.
\<close>

definition within_range :: "'k::linorder Where \<Rightarrow> 'k obj \<Rightarrow> bool" where
  "within_range w obj =
     ((case lower w of
         None \<Rightarrow> True
       | Some lo \<Rightarrow> if lowerOpen w then js_gt (obj (field w)) lo else js_ge (obj (field w)) lo) \<and>
      (case upper w of
         None \<Rightarrow> True
       | Some up \<Rightarrow> if upperOpen w then js_lt (obj (field w)) up else js_le (obj (field w)) up))"

section \<open>Native calls (the Web SQL transaction)\<close>

text \<open>
  The executor hands the engine the text of a statement and its parameters. The text is
  represented by its abstract syntax: the table, the columns and the clauses that the
  source concatenates, with the bound parameters in place of the question marks. The
  \<open>WHERE\<close> clause of a query is what \<open>toWhereClause\<close> of the base class makes of the key
  range; the statement records the range.
\<close>

record select_stmt =
  sel_from :: string
  sel_where :: "KeyRange option"
  sel_order_by :: "(string \<times> string) option"
  sel_limit :: "nat option"
  sel_offset :: "nat option"

datatype sql_stmt =
    SelectFrom select_stmt
  | SelectWhereKey string string jsval
  | InsertOrReplace string "string list" "jsval list"
  | DeleteWhereKey string string jsval
  | CountAll string
  | DropTables "string list"

text \<open>\<open>SQLResultSet\<close> and \<open>SQLError\<close>, what the engine passes to the two callbacks.\<close>

record sql_result =
  rows :: "props list"
  insertId :: jsval

datatype sql_error = SQLError string

text \<open>What an operation does to its deferred: \<open>df.callback(value)\<close> or \<open>df.errback(error)\<close>.\<close>

datatype delivery = Callback jsval | Errback sql_error

text \<open>What an operation throws to its caller.\<close>

datatype js_error = NotFoundError string | TypeError | Error string

text \<open>
  \<open>tx.executeSql(sql, params, success_callback, error_callback)\<close>: the statement and the
  two callbacks of an operation that issues one statement.
\<close>

record sql_call =
  sql :: sql_stmt
  success_callback :: "sql_result \<Rightarrow> delivery"
  error_callback :: "sql_error \<Rightarrow> delivery"

text \<open>The engine completes a call with a result set or with an error.\<close>

definition complete_call :: "sql_call \<Rightarrow> sql_error + sql_result \<Rightarrow> delivery" where
  "complete_call c outcome =
     (case outcome of Inl e \<Rightarrow> error_callback c e | Inr r \<Rightarrow> success_callback c r)"

section \<open>\<open>fetch\<close>\<close>

text \<open>
  \<open>max\<close> and \<open>skip\<close> are optional counts. \<open>start = skip || 0\<close> and
  \<open>end = goog.isDef(max) ? start + max : undefined\<close>.
\<close>

definition fetch_start :: "nat option \<Rightarrow> nat" where
  "fetch_start skip = (case skip of None \<Rightarrow> 0 | Some k \<Rightarrow> k)"

definition fetch_end :: "nat option \<Rightarrow> nat option \<Rightarrow> nat option" where
  "fetch_end mx skip = (case mx of None \<Rightarrow> None | Some m \<Rightarrow> Some (fetch_start skip + m))"

text \<open>
  Modelled from the spec: \<open>StoreSchema.getIndex(name)\<close>, the index of that name, if any.
\<close>

definition getIndex :: "StoreSchema \<Rightarrow> string \<Rightarrow> IndexSchema option" where
  "getIndex store n = find (\<lambda>ix. idx_name ix = n) (indexes store)"

text \<open>
  The statement that \<open>fetch\<close> builds, with the \<open>start\<close> and \<open>end\<close> left for the scan. Without
  filter and without continuation predicate, \<open>end\<close> becomes \<open>LIMIT end - start\<close> and a
  positive \<open>start\<close> becomes \<open>OFFSET start\<close>, and the scan is left with neither.
\<close>

record fetch_plan =
  plan_stmt :: select_stmt
  plan_start :: nat
  plan_end :: "nat option"

definition fetch_plan ::
  "StoreSchema \<Rightarrow> jsval IterableQuery \<Rightarrow> nat option \<Rightarrow> nat option \<Rightarrow> fetch_plan" where
  "fetch_plan store q mx skip =
     (let start = fetch_start skip;
          end = fetch_end mx skip;
          ix = (case index q of None \<Rightarrow> None | Some n \<Rightarrow> getIndex store n);
          dir = (if direction q = Prev then ''DESC'' else ''ASC'');
          order = (case ix of
                     Some i \<Rightarrow> Some (idx_name i, dir)
                   | None \<Rightarrow> (case keyPath store of Some kp \<Rightarrow> Some (kp, dir) | None \<Rightarrow> None));
          pushdown = (filter_fn q = None \<and> continued q = None)
      in \<lparr>plan_stmt =
            \<lparr>sel_from = st_name store, sel_where = keyRange q, sel_order_by = order,
             sel_limit = (if pushdown then (case end of None \<Rightarrow> None | Some e \<Rightarrow> Some (e - start))
                          else None),
             sel_offset = (if pushdown \<and> start > 0 then Some start else None)\<rparr>,
          plan_start = (if pushdown \<and> start > 0 then 0 else start),
          plan_end = (if pushdown then None else end)\<rparr>)"

text \<open>
  The scan of the result set. Its state is the counter \<open>idx\<close> of the rows that passed the
  filter, which starts at \<open>-1\<close>, and \<open>result\<close>; \<open>calls\<close> records the stage functions in the
  order in which the scan invokes them.
\<close>

datatype stage_call =
    CallInitial
  | CallContinued jsval
  | CallFilter jsval
  | CallMap jsval
  | CallReduce jsval jsval nat
  | CallFinalize jsval

record scan_state =
  idx :: int
  result :: jsval
  calls :: "stage_call list"

text \<open>\<open>result.push(value)\<close>; in collection mode \<open>result\<close> is an array.\<close>

definition js_push :: "jsval \<Rightarrow> jsval \<Rightarrow> jsval" where
  "js_push arr v = (case arr of JArr xs \<Rightarrow> JArr (xs @ [v]) | _ \<Rightarrow> arr)"

text \<open>
  \<open>var to_continue = !goog.isFunction(q.continued) || q.continued(value)\<close>: the predicate is
  invoked only when the query has one.
\<close>

definition eval_continued :: "jsval IterableQuery \<Rightarrow> jsval \<Rightarrow> scan_state \<Rightarrow> bool \<times> scan_state" where
  "eval_continued q v s =
     (case continued q of
        None \<Rightarrow> (True, s)
      | Some c \<Rightarrow> (c v, s\<lparr>calls := calls s @ [CallContinued v]\<rparr>))"

definition eval_filter :: "jsval IterableQuery \<Rightarrow> jsval \<Rightarrow> scan_state \<Rightarrow> bool \<times> scan_state" where
  "eval_filter q v s =
     (case filter_fn q of
        None \<Rightarrow> (True, s)
      | Some f \<Rightarrow> (f v, s\<lparr>calls := calls s @ [CallFilter v]\<rparr>))"

text \<open>The body of \<open>if (idx >= start)\<close>: map, then reduce or push.\<close>

definition emit :: "jsval IterableQuery \<Rightarrow> nat \<Rightarrow> jsval \<Rightarrow> scan_state \<Rightarrow> scan_state" where
  "emit q i v s =
     (let (v', s1) = (case map_fn q of
                        None \<Rightarrow> (v, s)
                      | Some m \<Rightarrow> (m v, s\<lparr>calls := calls s @ [CallMap v]\<rparr>))
      in case reduce q of
           Some r \<Rightarrow> s1\<lparr>result := r (result s1) v' i,
                        calls := calls s1 @ [CallReduce (result s1) v' i]\<rparr>
         | None \<Rightarrow> s1\<lparr>result := js_push (result s1) v'\<rparr>)"

text \<open>
  One turn of the \<open>for\<close> loop on row \<open>i\<close>: the new state, and whether the loop goes on (the
  negation of the condition of its \<open>break\<close>).
\<close>

definition scan_row ::
  "jsval IterableQuery \<Rightarrow> StoreSchema \<Rightarrow> nat \<Rightarrow> nat option \<Rightarrow> nat \<Rightarrow> props \<Rightarrow> scan_state
     \<Rightarrow> bool \<times> scan_state" where
  "scan_row q store start end i row s =
     (let v = JObj (parseRow store row);
          (to_continue, s1) = eval_continued q v s;
          (passes, s2) = eval_filter q v s1;
          s3 = (if passes
                then (let s' = s2\<lparr>idx := idx s2 + 1\<rparr>
                      in if idx s' \<ge> int start then emit q i v s' else s')
                else s2)
      in (to_continue \<and> (case end of None \<Rightarrow> True | Some e \<Rightarrow> idx s3 + 1 < int e), s3))"

fun scan_rows ::
  "jsval IterableQuery \<Rightarrow> StoreSchema \<Rightarrow> nat \<Rightarrow> nat option \<Rightarrow> nat \<Rightarrow> props list \<Rightarrow> scan_state
     \<Rightarrow> scan_state" where
  "scan_rows q store start end i [] s = s"
| "scan_rows q store start end i (row # rs) s =
     (case scan_row q store start end i row s of
        (go_on, s') \<Rightarrow> if go_on then scan_rows q store start end (Suc i) rs s' else s')"

text \<open>
  The success callback of \<open>fetch\<close>: \<open>result\<close> is an empty array unless the query reduces,
  and is left undefined if it does; the scan runs over \<open>results.rows\<close> from position 0.
\<close>

definition fetch_scan ::
  "jsval IterableQuery \<Rightarrow> StoreSchema \<Rightarrow> nat \<Rightarrow> nat option \<Rightarrow> props list \<Rightarrow> scan_state" where
  "fetch_scan q store start end rs =
     scan_rows q store start end 0 rs
       \<lparr>idx = - 1, result = (if reduce q = None then JArr [] else JUndefined), calls = []\<rparr>"

definition fetch_callback ::
  "jsval IterableQuery \<Rightarrow> StoreSchema \<Rightarrow> nat \<Rightarrow> nat option \<Rightarrow> sql_result \<Rightarrow> delivery" where
  "fetch_callback q store start end results =
     Callback (result (fetch_scan q store start end (rows results)))"

text \<open>
  \<open>fetch\<close> itself. The store is looked up and used at once: with no store of that name
  \<open>store.getQuotedName()\<close> is a call on an undefined value.
\<close>

definition fetch ::
  "DatabaseSchema \<Rightarrow> jsval IterableQuery \<Rightarrow> nat option \<Rightarrow> nat option \<Rightarrow> js_error + sql_call" where
  "fetch schema q mx skip =
     (case getStore schema (store_name q) of
        None \<Rightarrow> Inl TypeError
      | Some store \<Rightarrow>
          (let p = fetch_plan store q mx skip
           in Inr \<lparr>sql = SelectFrom (plan_stmt p),
                   success_callback = fetch_callback q store (plan_start p) (plan_end p),
                   error_callback = Errback\<rparr>))"

text \<open>
  Modelled from the spec: the engine's \<open>LIMIT\<close> and \<open>OFFSET\<close>. Of the rows that a statement
  selects, in its order, \<open>OFFSET\<close> drops a number of leading rows and \<open>LIMIT\<close> keeps at most
  a number of those that remain.
\<close>

definition limit_offset :: "select_stmt \<Rightarrow> 'a list \<Rightarrow> 'a list" where
  "limit_offset st candidates =
     (let rs = (case sel_offset st of None \<Rightarrow> candidates | Some k \<Rightarrow> drop k candidates)
      in case sel_limit st of None \<Rightarrow> rs | Some l \<Rightarrow> take l rs)"

text \<open>
  Modelled from the spec: the engine's answer to a statement. \<open>candidates\<close> are the rows
  that match the key range of a query, in the order of the statement; the result set of
  any other statement has no rows.
\<close>

definition engine_select :: "props list \<Rightarrow> sql_stmt \<Rightarrow> sql_error + sql_result" where
  "engine_select candidates stmt =
     Inr \<lparr>rows = (case stmt of SelectFrom st \<Rightarrow> limit_offset st candidates | _ \<Rightarrow> []),
          insertId = JUndefined\<rparr>"

text \<open>A fetch carried through: the engine completes the call that \<open>fetch\<close> issued.\<close>

definition run_fetch ::
  "DatabaseSchema \<Rightarrow> props list \<Rightarrow> jsval IterableQuery \<Rightarrow> nat option \<Rightarrow> nat option
     \<Rightarrow> js_error + delivery" where
  "run_fetch schema candidates q mx skip =
     (case fetch schema q mx skip of
        Inl e \<Rightarrow> Inl e
      | Inr c \<Rightarrow> Inr (complete_call c (engine_select candidates (sql c))))"



section \<open>Operations that issue one statement\<close>

text \<open>
  Modelled from the spec: \<open>StoreSchema.getIndexedValues(obj)\<close>, which derives the column
  list and the values of an object: the key under the key path, the value of every index
  that the object defines, and the serialized object in the default column, with one
  placeholder for each.
\<close>

record indexed_values =
  out_columns :: "string list"
  out_slots :: "string list"
  out_values :: "jsval list"
  out_key :: jsval

definition getIndexedValues :: "StoreSchema \<Rightarrow> props \<Rightarrow> indexed_values" where
  "getIndexedValues table obj =
     (let key = (case keyPath table of None \<Rightarrow> JUndefined | Some kp \<Rightarrow> js_get obj kp);
          key_cells = (case keyPath table of
                         None \<Rightarrow> []
                       | Some kp \<Rightarrow> if isDef key then [(kp, key)] else []);
          index_cells = [(idx_name ix, js_get obj (idx_name ix)).
                           ix \<leftarrow> indexes table,
                           idx_name ix \<noteq> DEFAULT_BLOB_COLUMN,
                           Some (idx_name ix) \<noteq> keyPath table,
                           isDef (js_get obj (idx_name ix))];
          cells = key_cells @ index_cells @ [(DEFAULT_BLOB_COLUMN, json_stringify obj)]
      in \<lparr>out_columns = map fst cells, out_slots = map (\<lambda>c. ''?'') cells,
          out_values = map snd cells, out_key = key\<rparr>)"

text \<open>
  The key that the success callback of a put delivers: \<open>goog.isDef(out.key) ? out.key : results.insertId\<close>.
\<close>

definition put_key :: "StoreSchema \<Rightarrow> props \<Rightarrow> sql_result \<Rightarrow> jsval" where
  "put_key table obj results =
     (let out = getIndexedValues table obj
      in if isDef (out_key out) then out_key out else insertId results)"

definition putObject :: "DatabaseSchema \<Rightarrow> string \<Rightarrow> props \<Rightarrow> js_error + sql_call" where
  "putObject schema table_name obj =
     (case getStore schema table_name of
        None \<Rightarrow> Inl (NotFoundError table_name)
      | Some table \<Rightarrow>
          (let out = getIndexedValues table obj
           in Inr \<lparr>sql = InsertOrReplace (st_name table) (out_columns out) (out_values out),
                   success_callback = (\<lambda>results. Callback (put_key table obj results)),
                   error_callback = Errback\<rparr>))"

definition getById :: "DatabaseSchema \<Rightarrow> string \<Rightarrow> jsval \<Rightarrow> js_error + sql_call" where
  "getById schema table_name key =
     (case getStore schema table_name of
        None \<Rightarrow> Inl (NotFoundError table_name)
      | Some table \<Rightarrow>
          Inr \<lparr>sql = SelectWhereKey (st_name table) (getSQLKeyColumnName table) key,
                success_callback =
                  (\<lambda>results. case rows results of
                                [] \<Rightarrow> Callback JUndefined
                              | row # _ \<Rightarrow> Callback (JObj (parseRow table row))),
                error_callback = Errback\<rparr>)"

text \<open>
  \<open>removeById\<close> looks the store up and calls \<open>store.getSQLKeyColumnName()\<close> at once: with no
  store of that name this is a call on an undefined value.
\<close>

definition removeById :: "DatabaseSchema \<Rightarrow> string \<Rightarrow> jsval \<Rightarrow> js_error + sql_call" where
  "removeById schema table_name key =
     (case getStore schema table_name of
        None \<Rightarrow> Inl TypeError
      | Some store \<Rightarrow>
          Inr \<lparr>sql = DeleteWhereKey (st_name store) (getSQLKeyColumnName store) key,
                success_callback = (\<lambda>results. Callback (JBool True)),
                error_callback = Errback\<rparr>)"

text \<open>
  Modelled from the spec: the engine on the statements that address a row by its key. A
  database maps the name of a table to its rows. The row id of a row is its key where the
  key is a number; a row that is inserted without a key cell gets the next row id, one
  more than the greatest so far, as its key cell. \<open>INSERT OR REPLACE\<close> stores the row made
  of the columns and their values in place of the row with the same key cell, and its
  \<open>insertId\<close> is the row id. \<open>SELECT ... WHERE column = ?\<close> yields the rows whose cell in that
  column is the parameter, and \<open>DELETE ... WHERE column = ?\<close> removes them. Queries over a
  key range, counts and drops are not part of this model.
\<close>

type_synonym database = "string \<Rightarrow> props list"

definition select_where_key :: "string \<Rightarrow> jsval \<Rightarrow> props list \<Rightarrow> props list" where
  "select_where_key col k table_rows = filter (\<lambda>r. js_get r col = k) table_rows"

fun key_number :: "jsval \<Rightarrow> int" where
  "key_number (JNum n) = n"
| "key_number x = 0"

definition next_row_id :: "string \<Rightarrow> props list \<Rightarrow> int" where
  "next_row_id key_column table_rows =
     1 + foldl max 0 (map (\<lambda>r. key_number (js_get r key_column)) table_rows)"

definition insert_or_replace :: "string \<Rightarrow> props \<Rightarrow> props list \<Rightarrow> sql_result \<times> props list" where
  "insert_or_replace key_column row table_rows =
     (let row_id = (case js_get row key_column of
                      JNum n \<Rightarrow> n
                    | _ \<Rightarrow> next_row_id key_column table_rows);
          stored = (if isDef (js_get row key_column) then row
                    else js_set row key_column (JNum row_id))
      in (\<lparr>rows = [], insertId = JNum row_id\<rparr>,
          filter (\<lambda>r. js_get r key_column \<noteq> js_get stored key_column) table_rows @ [stored]))"

definition exec_sql ::
  "DatabaseSchema \<Rightarrow> sql_stmt \<Rightarrow> database \<Rightarrow> (sql_result \<times> database) option" where
  "exec_sql schema stmt db =
     (case stmt of
        InsertOrReplace t cols vals \<Rightarrow>
          (let key_column = (case getStore schema t of
                               None \<Rightarrow> SQLITE_SPECIAL_COLUNM_NAME
                             | Some table \<Rightarrow> getSQLKeyColumnName table)
           in case insert_or_replace key_column (zip cols vals) (db t) of
                (res, table_rows) \<Rightarrow> Some (res, db(t := table_rows)))
      | SelectWhereKey t col k \<Rightarrow>
          Some (\<lparr>rows = select_where_key col k (db t), insertId = JUndefined\<rparr>, db)
      | DeleteWhereKey t col k \<Rightarrow>
          Some (\<lparr>rows = [], insertId = JUndefined\<rparr>,
                db(t := filter (\<lambda>r. js_get r col \<noteq> k) (db t)))
      | _ \<Rightarrow> None)"


text \<open>
  An operation carried through on a database: what it delivers, and the database after;
  nothing where the statement is outside the model of the engine.
\<close>

definition run_call ::
  "DatabaseSchema \<Rightarrow> js_error + sql_call \<Rightarrow> database
     \<Rightarrow> ((js_error + delivery) \<times> database) option" where
  "run_call schema op db =
     (case op of
        Inl e \<Rightarrow> Some (Inl e, db)
      | Inr c \<Rightarrow>
          (case exec_sql schema (sql c) db of
             None \<Rightarrow> None
           | Some (res, db') \<Rightarrow> Some (Inr (success_callback c res), db')))"

text \<open>A put into an empty database, followed by a get.\<close>

definition put_then_get ::
  "DatabaseSchema \<Rightarrow> string \<Rightarrow> props \<Rightarrow> jsval \<Rightarrow> (js_error + delivery) option" where
  "put_then_get schema t obj k =
     (case run_call schema (putObject schema t obj) (\<lambda>t. []) of
        None \<Rightarrow> None
      | Some (put_result, db) \<Rightarrow>
          (case run_call schema (getById schema t k) db of
             None \<Rightarrow> None
           | Some (get_result, db') \<Rightarrow> Some get_result))"

section \<open>Batch operations\<close>

text \<open>
  \<open>putObjects\<close>, \<open>getByIds\<close> and \<open>getByKeys\<close> are one program with four parameters: the
  number of items, the number of requests sent at the start (\<open>RW_REQ_PER_TX\<close> for writes,
  \<open>REQ_PER_TX\<close> for reads), the statement that \<open>put(i, tx)\<close> or \<open>get(i, tx)\<close> issues for item
  \<open>i\<close> (or what it throws), and the value that the success callback of item \<open>i\<close> stores at
  position \<open>i\<close>.
\<close>

definition REQ_PER_TX :: nat where
  "REQ_PER_TX = 10"

definition RW_REQ_PER_TX :: nat where
  "RW_REQ_PER_TX = 2"

record batch_op =
  n_items :: nat
  window :: nat
  request :: "nat \<Rightarrow> js_error + sql_stmt"
  slot :: "nat \<Rightarrow> sql_result \<Rightarrow> jsval"

text \<open>
  The state of a batch: the result array (\<open>objects\<close>, \<open>result_keys\<close>) and \<open>result_count\<close> of
  the source; the items whose request the engine has not completed yet; the statements
  handed to the engine so far, each with its item; what has been done to the deferred so
  far; and the exception that left the operation, if any.
\<close>

record batch_state =
  objects :: "jsval list"
  result_count :: nat
  in_flight :: "nat list"
  issued :: "(nat \<times> sql_stmt) list"
  delivered :: "delivery list"
  thrown :: "js_error option"

definition batch_init :: batch_state where
  "batch_init =
     \<lparr>objects = [], result_count = 0, in_flight = [], issued = [], delivered = [], thrown = None\<rparr>"

text \<open>\<open>put(i, tx)\<close>, \<open>get(i, tx)\<close>: build the statement of item \<open>i\<close> and hand it to the engine.\<close>

definition issue :: "batch_op \<Rightarrow> nat \<Rightarrow> batch_state \<Rightarrow> batch_state" where
  "issue op i s =
     (case request op i of
        Inl e \<Rightarrow> s\<lparr>thrown := Some e\<rparr>
      | Inr stmt \<Rightarrow> s\<lparr>in_flight := in_flight s @ [i], issued := issued s @ [(i, stmt)]\<rparr>)"

text \<open>The success callback of item \<open>i\<close>.\<close>

definition on_success :: "batch_op \<Rightarrow> nat \<Rightarrow> sql_result \<Rightarrow> batch_state \<Rightarrow> batch_state" where
  "on_success op i res s =
     (let s1 = s\<lparr>result_count := result_count s + 1,
                 objects := js_array_set (objects s) i (slot op i res)\<rparr>
      in if result_count s1 = n_items op
         then s1\<lparr>delivered := delivered s1 @ [Callback (JArr (objects s1))]\<rparr>
         else (let next = i + window op
               in if next < n_items op then issue op next s1 else s1))"

text \<open>The error callback of an item.\<close>

definition on_error :: "sql_error \<Rightarrow> batch_state \<Rightarrow> batch_state" where
  "on_error e s = s\<lparr>delivered := delivered s @ [Errback e]\<rparr>"

text \<open>
  The loop \<open>for (i = 0; i < window && i < n; i++)\<close> that sends the first requests; an
  exception leaves it.
\<close>

fun send_parallel :: "batch_op \<Rightarrow> nat list \<Rightarrow> batch_state \<Rightarrow> batch_state" where
  "send_parallel op [] s = s"
| "send_parallel op (i # is) s =
     (let s' = issue op i s
      in if thrown s' \<noteq> None then s' else send_parallel op is s')"

definition batch_start :: "batch_op \<Rightarrow> batch_state" where
  "batch_start op =
     (if n_items op > 0
      then send_parallel op [0..<min (window op) (n_items op)] batch_init
      else batch_init\<lparr>delivered := [Callback (JArr [])]\<rparr>)"

text \<open>
  The engine completes the request of item \<open>i\<close> with \<open>answer i\<close>. Only a request in flight
  can complete, and none does after an exception has left a callback.
\<close>

definition complete ::
  "batch_op \<Rightarrow> (nat \<Rightarrow> sql_error + sql_result) \<Rightarrow> batch_state \<Rightarrow> nat \<Rightarrow> batch_state" where
  "complete op answer s i =
     (if i \<notin> set (in_flight s) \<or> thrown s \<noteq> None then s
      else (let s1 = s\<lparr>in_flight := remove1 i (in_flight s)\<rparr>
            in case answer i of
                 Inl e \<Rightarrow> on_error e s1
               | Inr res \<Rightarrow> on_success op i res s1))"

text \<open>A run: the start of the operation, then the completions in the order of the engine.\<close>

definition run_batch ::
  "batch_op \<Rightarrow> (nat \<Rightarrow> sql_error + sql_result) \<Rightarrow> nat list \<Rightarrow> batch_state" where
  "run_batch op answer sched = foldl (complete op answer) (batch_start op) sched"


text \<open>
  The engine's side of the contract: a statement whose error callback does not return
  \<open>false\<close> fails its transaction, and the callbacks of the source return nothing. So a
  request that fails is the last one that the engine completes.
\<close>

fun stops_at_error :: "(nat \<Rightarrow> sql_error + sql_result) \<Rightarrow> nat list \<Rightarrow> bool" where
  "stops_at_error answer [] = True"
| "stops_at_error answer (i # is) =
     (case answer i of Inl e \<Rightarrow> is = [] | Inr res \<Rightarrow> stops_at_error answer is)"

text \<open>The three operations.\<close>

definition putObjects_op :: "StoreSchema \<Rightarrow> props list \<Rightarrow> batch_op" where
  "putObjects_op table objs =
     \<lparr>n_items = length objs, window = RW_REQ_PER_TX,
      request = (\<lambda>i. let out = getIndexedValues table (objs ! i)
                     in Inr (InsertOrReplace (st_name table) (out_columns out) (out_values out))),
      slot = (\<lambda>i results. put_key table (objs ! i) results)\<rparr>"

definition putObjects :: "DatabaseSchema \<Rightarrow> string \<Rightarrow> props list \<Rightarrow> js_error + batch_op" where
  "putObjects schema table_name objs =
     (case getStore schema table_name of
        None \<Rightarrow> Inl (NotFoundError table_name)
      | Some table \<Rightarrow> Inr (putObjects_op table objs))"

text \<open>What the success callback of a get stores: the first row decoded, if there is one.\<close>

definition first_row :: "StoreSchema \<Rightarrow> sql_result \<Rightarrow> jsval" where
  "first_row table results =
     (case rows results of [] \<Rightarrow> JUndefined | row # _ \<Rightarrow> JObj (parseRow table row))"

definition getByIds_op :: "StoreSchema \<Rightarrow> jsval list \<Rightarrow> batch_op" where
  "getByIds_op table ids =
     \<lparr>n_items = length ids, window = REQ_PER_TX,
      request = (\<lambda>i. Inr (SelectWhereKey (st_name table) (getSQLKeyColumnName table) (ids ! i))),
      slot = (\<lambda>i results. first_row table results)\<rparr>"

definition getByIds :: "DatabaseSchema \<Rightarrow> string \<Rightarrow> jsval list \<Rightarrow> js_error + batch_op" where
  "getByIds schema table_name ids =
     (case getStore schema table_name of
        None \<Rightarrow> Inl (NotFoundError table_name)
      | Some table \<Rightarrow> Inr (getByIds_op table ids))"

text \<open>
  A key (\<open>ydn.db.Key\<close>) names its store and its id. \<open>getByKeys\<close> looks the store of a key up
  inside \<open>get(i, tx)\<close>, when it comes to that key, and throws if there is none; the success
  callback of the item exists only where the store was found.
\<close>

record Key =
  key_store :: string
  key_id :: jsval

text \<open>
  Modelled from the spec: \<open>StoreSchema.getQuotedKeyPath()\<close>, the key path as a quoted
  identifier.
\<close>

definition getQuotedKeyPath :: "StoreSchema \<Rightarrow> string" where
  "getQuotedKeyPath table = (case keyPath table of None \<Rightarrow> [] | Some kp \<Rightarrow> kp)"

definition getByKeys :: "DatabaseSchema \<Rightarrow> Key list \<Rightarrow> batch_op" where
  "getByKeys schema keys =
     \<lparr>n_items = length keys, window = REQ_PER_TX,
      request = (\<lambda>i. case getStore schema (key_store (keys ! i)) of
                       None \<Rightarrow> Inl (NotFoundError (key_store (keys ! i)))
                     | Some table \<Rightarrow>
                         Inr (SelectWhereKey (st_name table) (getQuotedKeyPath table)
                                (key_id (keys ! i)))),
      slot = (\<lambda>i results. case getStore schema (key_store (keys ! i)) of
                            None \<Rightarrow> JUndefined
                          | Some table \<Rightarrow> first_row table results)\<rparr>"

section \<open>The in-memory adapter (simple_storage.js)\<close>

text \<open>
  The two callbacks of \<open>doTransaction\<close> act on the cache (\<open>this.cache_\<close>), which the body
  receives, and on the rest of the heap, and either of them may throw: a callback yields
  the exception it threw, if any, with the cache and the heap as it left them. \<open>invoked\<close>
  records what the adapter has invoked so far, in order.
\<close>

datatype TransactionEventTypes = COMPLETE | ABORT

datatype adapter_call = InvokedBody | InvokedOnCompleted TransactionEventTypes

record 'u js_state =
  cache :: "string \<rightharpoonup> string"
  heap :: 'u
  invoked :: "adapter_call list"

type_synonym 'u effect =
  "(string \<rightharpoonup> string) \<times> 'u \<Rightarrow> js_error option \<times> (string \<rightharpoonup> string) \<times> 'u"

definition invoke ::
  "adapter_call \<Rightarrow> 'u effect \<Rightarrow> 'u js_state \<Rightarrow> js_error option \<times> 'u js_state" where
  "invoke what f s =
     (case f (cache s, heap s) of
        (ex, c, h) \<Rightarrow> (ex, s\<lparr>cache := c, heap := h, invoked := invoked s @ [what]\<rparr>))"

text \<open>
  \<open>doTransaction(trFn, scopes, mode, oncompleted)\<close>: its body is the two calls
  \<open>trFn(this.cache_)\<close> and \<open>oncompleted(ydn.db.TransactionEventTypes.COMPLETE, {})\<close>. An
  exception of the first leaves the function before the second. The result is the
  exception that left \<open>doTransaction\<close>, if any, and the state at that moment.
\<close>

definition doTransaction ::
  "'u effect \<Rightarrow> string list \<Rightarrow> bool \<Rightarrow> (TransactionEventTypes \<Rightarrow> 'u effect) \<Rightarrow> 'u js_state
     \<Rightarrow> js_error option \<times> 'u js_state" where
  "doTransaction trFn scopes read_write oncompleted s =
     (case invoke InvokedBody trFn s of
        (Some e, s1) \<Rightarrow> (Some e, s1)
      | (None, s1) \<Rightarrow> invoke (InvokedOnCompleted COMPLETE) (oncompleted COMPLETE) s1)"

section \<open>Vocabulary of the properties\<close>

text \<open>The value that the scan emits for a row value: \<open>map(value)\<close> if the query maps.\<close>

definition mapped :: "jsval IterableQuery \<Rightarrow> jsval \<Rightarrow> jsval" where
  "mapped q v = (case map_fn q of None \<Rightarrow> v | Some m \<Rightarrow> m v)"

text \<open>What a row adds to the result of a scan that emits it.\<close>

definition emitted :: "jsval IterableQuery \<Rightarrow> StoreSchema \<Rightarrow> props \<Rightarrow> jsval" where
  "emitted q store row = mapped q (JObj (parseRow store row))"

text \<open>
  In a record of stage calls, each call of \<open>filter\<close> comes right after a call of
  \<open>continued\<close> on the same value, and each call of \<open>continued\<close> is followed by one of
  \<open>filter\<close>, whatever either returned.
\<close>

fun continued_first :: "stage_call list \<Rightarrow> bool" where
  "continued_first [] = True"
| "continued_first (CallContinued v # CallFilter v' # cs) = (v = v' \<and> continued_first cs)"
| "continued_first (CallContinued v # cs) = False"
| "continued_first (CallFilter v # cs) = False"
| "continued_first (c # cs) = continued_first cs"



text \<open>The coercion that \<open>parseRow\<close> applies to a cell of an index, by the declared type.\<close>

fun coerce :: "DataType \<Rightarrow> jsval \<Rightarrow> jsval" where
  "coerce INTEGER x = parseInt x"
| "coerce FLOAT x = parseFloat x"
| "coerce TEXT x = x"




section \<open>Examples\<close>

text \<open>
  The store of the scenarios: \<open>users\<close>, key path \<open>id\<close>, index \<open>age\<close> declared integer; the
  native row of a user, and three of them.
\<close>

definition users :: StoreSchema where
  "users = \<lparr>st_name = ''users'', keyPath = Some ''id'',
            indexes = [\<lparr>idx_name = ''age'', idx_type = INTEGER, idx_unique = False\<rparr>]\<rparr>"

definition user :: "int \<Rightarrow> jsval \<Rightarrow> props" where
  "user i a = [(''id'', JNum i), (''age'', a)]"

definition user_row :: "int \<Rightarrow> jsval \<Rightarrow> props" where
  "user_row i a = [(''id'', JNum i), (''age'', a), (DEFAULT_BLOB_COLUMN, JJson (user i a))]"

definition three_rows :: "props list" where
  "three_rows = [user_row 1 (JNum 30), user_row 2 (JNum 31), user_row 3 (JNum 32)]"

text \<open>A query whose \<open>continued\<close> and \<open>filter\<close> both reject the user with id 2.\<close>

definition not_user_2 :: "jsval \<Rightarrow> bool" where
  "not_user_2 v = (v \<noteq> JObj (user 2 (JNum 31)))"

definition until_user_2 :: "jsval IterableQuery" where
  "until_user_2 = new_IterableQuery ''users'' None None (Some not_user_2) (Some not_user_2)"



text \<open>The where condition \<open>age >= 5\<close> and a person of a given age.\<close>

definition age_at_least_5 :: "int Where" where
  "age_at_least_5 =
     \<lparr>field = ''age'', lower = Some 5, lowerOpen = False, upper = None, upperOpen = False\<rparr>"

definition person_aged :: "int \<Rightarrow> int obj" where
  "person_aged n = (\<lambda>name. if name = ''age'' then Some n else None)"

text \<open>
  A transaction body and a completion callback that change nothing, a body that stores an
  item and then throws, and the state of a program that has an empty cache and has invoked
  nothing yet.
\<close>

definition empty_body :: "unit effect" where
  "empty_body = (\<lambda>(c, h). (None, c, h))"

definition ignore_completion :: "TransactionEventTypes \<Rightarrow> unit effect" where
  "ignore_completion e = (\<lambda>(c, h). (None, c, h))"

definition throwing_body :: "unit effect" where
  "throwing_body = (\<lambda>(c, h). (Some (Error ''failed''), c(''k'' \<mapsto> ''v''), h))"

definition fresh_state :: "unit js_state" where
  "fresh_state = \<lparr>cache = Map.empty, heap = (), invoked = []\<rparr>"

text \<open>
  The scenario of the batch get: the store holds the users 1 and 3, the ids asked for are
  5, 1 and 3, and the engine answers each request from the store. In \<open>second_fails\<close> the
  engine fails the request of item 1.
\<close>

definition two_users :: database where
  "two_users = (\<lambda>t. if t = ''users'' then [user_row 1 (JNum 30), user_row 3 (JNum 32)] else [])"

definition ids_513 :: "jsval list" where
  "ids_513 = [JNum 5, JNum 1, JNum 3]"

definition answers_513 :: "nat \<Rightarrow> sql_error + sql_result" where
  "answers_513 i =
     Inr \<lparr>rows = select_where_key ''id'' (ids_513 ! i) (two_users ''users''), insertId = JUndefined\<rparr>"


definition both_fail :: "nat \<Rightarrow> sql_error + sql_result" where
  "both_fail i = Inl (SQLError (if i = 0 then ''disk full'' else ''constraint failed''))"

definition three_users :: "props list" where
  "three_users = [user 1 (JNum 30), user 2 (JNum 31), user 3 (JNum 32)]"



definition keys_unknown_store :: "Key list" where
  "keys_unknown_store =
     [\<lparr>key_store = ''users'', key_id = JNum 1\<rparr>, \<lparr>key_store = ''nosuch'', key_id = JNum 2\<rparr>]"



section \<open>Where conditions as filters\<close>

text \<open>
  What \<open>processWhereAsFilter\<close> keeps of the filter that the query had: the new filter
  accepts an object only if the old one does.
\<close>

lemma processWhereAsFilter_conjunction:
  "filter_fn (processWhereAsFilter w q) =
     Some (where_filter w (case filter_fn q of None \<Rightarrow> (\<lambda>obj. True) | Some f \<Rightarrow> f))"
  by (simp add: processWhereAsFilter_def)

lemma where_filter_implies_previous: "where_filter w f obj \<Longrightarrow> f obj"
  by (simp add: where_filter_def Let_def)

text \<open>
  C1. The claim: the filter that \<open>processWhereAsFilter\<close> installs accepts an object iff
  the filter of the query did and the field lies within the range, above the lower bound
  and below the upper bound. The source compares the other way round: \<open>ok1\<close> is
  \<open>value <= where.lower\<close> and \<open>ok2\<close> is \<open>value >= where.upper\<close>. With the condition
  \<open>age >= 5\<close> on a query without filter, a person aged 7 lies within the range and is
  rejected, and a person aged 3 lies outside and is accepted.
\<close>

theorem processWhereAsFilter_compares_backwards:
  "within_range age_at_least_5 (person_aged 7) \<and>
   \<not> the (filter_fn (processWhereAsFilter age_at_least_5
                        (new_IterableQuery ''people'' None None None None))) (person_aged 7) \<and>
   \<not> within_range age_at_least_5 (person_aged 3) \<and>
   the (filter_fn (processWhereAsFilter age_at_least_5
                      (new_IterableQuery ''people'' None None None None))) (person_aged 3)"
  by (simp add: processWhereAsFilter_def new_IterableQuery_def where_filter_def
        within_range_def age_at_least_5_def person_aged_def)

section \<open>The scan of \<open>fetch\<close>\<close>

lemma scan_rows_Cons:
  "scan_rows q store start end i (row # rs) s =
     (if fst (scan_row q store start end i row s)
      then scan_rows q store start end (Suc i) rs (snd (scan_row q store start end i row s))
      else snd (scan_row q store start end i row s))"
  by (simp split: prod.splits)

subsection \<open>A row on which \<open>continued\<close> is false ends the scan\<close>

lemma scan_row_stops:
  "continued q = Some c \<Longrightarrow> \<not> c (JObj (parseRow store row)) \<Longrightarrow>
     \<not> fst (scan_row q store start end i row s)"
  by (simp add: scan_row_def eval_continued_def Let_def split: prod.splits)

lemma scan_rows_cut:
  assumes "continued q = Some c"
  shows "k < length rs \<Longrightarrow> \<not> c (JObj (parseRow store (rs ! k))) \<Longrightarrow>
     scan_rows q store start end i rs s = scan_rows q store start end i (take (Suc k) rs) s"
proof (induction rs arbitrary: i s k)
  case Nil
  then show ?case by simp
next
  case (Cons row rs)
  show ?case
  proof (cases k)
    case 0
    with Cons.prems assms have "\<not> fst (scan_row q store start end i row s)"
      by (simp add: scan_row_stops)
    then show ?thesis using 0 by (simp add: scan_rows_Cons del: scan_rows.simps)
  next
    case (Suc k')
    with Cons.prems have "k' < length rs" "\<not> c (JObj (parseRow store (rs ! k')))"
      by simp_all
    from Cons.IH[OF this] show ?thesis
      using Suc by (simp add: scan_rows_Cons del: scan_rows.simps)
  qed
qed

lemma continued_first_append:
  "continued_first xs \<Longrightarrow> continued_first (xs @ ys) = continued_first ys"
  by (induction xs rule: continued_first.induct) auto

lemma emit_calls: "\<exists>new. calls (emit q i v s) = calls s @ new \<and> continued_first new"
  by (auto simp: emit_def Let_def split: option.splits prod.splits)

lemma scan_row_calls:
  assumes "continued q = Some c" and "filter_fn q = Some f"
  shows "\<exists>new. calls (snd (scan_row q store start end i row s)) = calls s @ new \<and>
           continued_first new"
proof -
  let ?v = "JObj (parseRow store row)"
  let ?s2 = "s\<lparr>calls := calls s @ [CallContinued ?v, CallFilter ?v]\<rparr>"
  obtain new where
    "calls (emit q i ?v (?s2\<lparr>idx := idx ?s2 + 1\<rparr>)) = calls (?s2\<lparr>idx := idx ?s2 + 1\<rparr>) @ new"
    and "continued_first new"
    using emit_calls by blast
  with assms show ?thesis
    by (auto simp: scan_row_def eval_continued_def eval_filter_def Let_def split: prod.splits)
qed

lemma scan_rows_calls:
  assumes "continued q = Some c" and "filter_fn q = Some f"
  shows "continued_first (calls s) \<Longrightarrow>
     continued_first (calls (scan_rows q store start end i rs s))"
proof (induction rs arbitrary: i s)
  case Nil
  then show ?case by simp
next
  case (Cons row rs)
  obtain new where "calls (snd (scan_row q store start end i row s)) = calls s @ new"
    and "continued_first new"
    using scan_row_calls[OF assms] by blast
  with Cons.prems have "continued_first (calls (snd (scan_row q store start end i row s)))"
    by (simp add: continued_first_append)
  with Cons.IH show ?case by (simp add: scan_rows_Cons del: scan_rows.simps)
qed

lemma fetch_plan_no_pushdown:
  assumes "continued q = Some c"
  shows "limit_offset (plan_stmt (fetch_plan store q mx skip)) rs = rs"
    and "plan_start (fetch_plan store q mx skip) = fetch_start skip"
    and "plan_end (fetch_plan store q mx skip) = fetch_end mx skip"
  using assms by (simp_all add: fetch_plan_def limit_offset_def Let_def)

lemma run_fetch_no_pushdown:
  assumes "continued q = Some c" and "getStore schema (store_name q) = Some store"
  shows "run_fetch schema rs q mx skip =
     Inr (Callback (result (fetch_scan q store (fetch_start skip) (fetch_end mx skip) rs)))"
  using assms
  by (simp add: run_fetch_def fetch_def complete_call_def engine_select_def fetch_callback_def
        fetch_plan_no_pushdown Let_def)

text \<open>
  C2. If \<open>continued\<close> is false on the row at position \<open>k\<close> of the result set, the scan is the
  scan of the rows up to that one: no later row adds to the result, to the counter or to
  the stage calls, whatever the filter is and whatever it says of that row. Where the
  query has a filter as well, every row that is scanned has \<open>continued\<close> invoked on it and
  then \<open>filter\<close>. A query with a continuation predicate gets all its candidate rows from
  the engine, so the fetch as a whole delivers what it delivers on the candidates up to
  that row.
\<close>

theorem fetch_scan_ends_where_continued_is_false:
  assumes "continued q = Some c" and "k < length rs"
    and "\<not> c (JObj (parseRow store (rs ! k)))"
  shows "fetch_scan q store start end rs = fetch_scan q store start end (take (Suc k) rs) \<and>
         (filter_fn q \<noteq> None \<longrightarrow> continued_first (calls (fetch_scan q store start end rs))) \<and>
         (getStore schema (store_name q) = Some store \<longrightarrow>
            run_fetch schema rs q mx skip = run_fetch schema (take (Suc k) rs) q mx skip)"
proof -
  have cut: "fetch_scan q store start end rs = fetch_scan q store start end (take (Suc k) rs)"
    for start "end"
    unfolding fetch_scan_def using assms by (intro scan_rows_cut)
  moreover have "continued_first (calls (fetch_scan q store start end rs))"
    if "filter_fn q \<noteq> None"
  proof -
    from that obtain f where "filter_fn q = Some f" by blast
    from scan_rows_calls[OF assms(1) this] show ?thesis by (simp add: fetch_scan_def)
  qed
  moreover have "run_fetch schema rs q mx skip = run_fetch schema (take (Suc k) rs) q mx skip"
    if "getStore schema (store_name q) = Some store"
    using run_fetch_no_pushdown[OF assms(1) that] cut by simp
  ultimately show ?thesis by blast
qed

theorem fetch_scan_ends_where_continued_is_false_witness:
  "continued until_user_2 = Some not_user_2 \<and> 1 < length three_rows \<and>
   \<not> not_user_2 (JObj (parseRow users (three_rows ! 1))) \<and>
   filter_fn until_user_2 \<noteq> None \<and>
   getStore [users] (store_name until_user_2) = Some users \<and>
   fetch_scan until_user_2 users 0 None three_rows =
     fetch_scan until_user_2 users 0 None (take (Suc 1) three_rows) \<and>
   continued_first (calls (fetch_scan until_user_2 users 0 None three_rows)) \<and>
   run_fetch [users] three_rows until_user_2 None None =
     run_fetch [users] (take (Suc 1) three_rows) until_user_2 None None \<and>
   run_fetch [users] three_rows until_user_2 None None =
     Inr (Callback (JArr [JObj (user 1 (JNum 30))]))"
proof -
  have h1: "continued until_user_2 = Some not_user_2"
    by (simp add: until_user_2_def new_IterableQuery_def)
  have h2: "1 < length three_rows" by (simp add: three_rows_def)
  have h3: "\<not> not_user_2 (JObj (parseRow users (three_rows ! 1)))" by code_simp
  have h4: "filter_fn until_user_2 \<noteq> None"
    by (simp add: until_user_2_def new_IterableQuery_def)
  have h5: "getStore [users] (store_name until_user_2) = Some users"
    by (simp add: getStore_def until_user_2_def new_IterableQuery_def users_def)
  have r: "run_fetch [users] three_rows until_user_2 None None =
      Inr (Callback (JArr [JObj (user 1 (JNum 30))]))"
    by code_simp
  from fetch_scan_ends_where_continued_is_false[OF h1 h2 h3, of 0 None "[users]" None None]
    h1 h2 h3 h4 h5 r
  show ?thesis by blast
qed

subsection \<open>Reduce mode\<close>


















subsection \<open>Pushing \<open>skip\<close> and \<open>max\<close> down\<close>

text \<open>
  Without filter, continuation predicate and reduce stage, or with a filter that never
  rejects: the scan emits the rows from position \<open>start\<close> on, up to position \<open>end\<close>, but it
  always scans the first row.
\<close>

lemma scan_row_unfiltered:
  assumes "filter_fn q = None \<or> filter_fn q = Some (\<lambda>v. True)" and "continued q = None"
    and "reduce q = None"
  shows "\<exists>cl'. scan_row q store start end i row \<lparr>idx = int i - 1, result = JArr acc, calls = cl\<rparr> =
     ((case end of None \<Rightarrow> True | Some e \<Rightarrow> Suc i < e),
      \<lparr>idx = int (Suc i) - 1,
       result = JArr (acc @ (if start \<le> i then [emitted q store row] else [])),
       calls = cl'\<rparr>)"
  using assms
  by (auto simp: scan_row_def eval_continued_def eval_filter_def emit_def js_push_def emitted_def
        mapped_def Let_def split: option.splits)

lemma scan_rows_unfiltered:
  assumes "filter_fn q = None \<or> filter_fn q = Some (\<lambda>v. True)" and "continued q = None"
    and "reduce q = None"
  shows "result (scan_rows q store start end i rs \<lparr>idx = int i - 1, result = JArr acc, calls = cl\<rparr>) =
     JArr (acc @ drop (start - i)
                   (take (case end of None \<Rightarrow> length rs | Some e \<Rightarrow> max 1 (e - i))
                      (map (emitted q store) rs)))"
proof (induction rs arbitrary: i acc cl)
  case Nil
  then show ?case by simp
next
  case (Cons row rs)
  let ?s = "\<lparr>idx = int i - 1, result = JArr acc, calls = cl\<rparr>"
  let ?here = "if start \<le> i then [emitted q store row] else []"
  obtain cl' where step: "scan_row q store start end i row ?s =
     ((case end of None \<Rightarrow> True | Some e \<Rightarrow> Suc i < e),
      \<lparr>idx = int (Suc i) - 1, result = JArr (acc @ ?here), calls = cl'\<rparr>)"
    using scan_row_unfiltered[OF assms] by blast
  show ?case
  proof (cases "case end of None \<Rightarrow> True | Some e \<Rightarrow> Suc i < e")
    case True
    then have "result (scan_rows q store start end i (row # rs) ?s) =
        JArr ((acc @ ?here) @ drop (start - Suc i)
                   (take (case end of None \<Rightarrow> length rs | Some e \<Rightarrow> max 1 (e - Suc i))
                      (map (emitted q store) rs)))"
      using step Cons.IH[of "Suc i" "acc @ ?here" cl'] by (simp add: scan_rows_Cons del: scan_rows.simps)
    also have "(acc @ ?here) @ drop (start - Suc i)
                   (take (case end of None \<Rightarrow> length rs | Some e \<Rightarrow> max 1 (e - Suc i))
                      (map (emitted q store) rs)) =
        acc @ drop (start - i)
                   (take (case end of None \<Rightarrow> length (row # rs) | Some e \<Rightarrow> max 1 (e - i))
                      (map (emitted q store) (row # rs)))"
    proof (cases "end")
      case None
      then show ?thesis by (cases "start \<le> i") (simp_all add: drop_Cons' Suc_diff_le)
    next
      case (Some e)
      with True have e: "Suc i < e" by simp
      then have "max 1 (e - i) = Suc (e - Suc i)" "max 1 (e - Suc i) = e - Suc i" by simp_all
      with Some show ?thesis by (cases "start \<le> i") (simp_all add: drop_Cons')
    qed
    finally show ?thesis .
  next
    case False
    then obtain e where e: "end = Some e" "\<not> Suc i < e" by (auto split: option.splits)
    then have m: "max 1 (e - i) = 1" by simp
    have "result (scan_rows q store start end i (row # rs) ?s) = JArr (acc @ ?here)"
      using step False by (simp add: scan_rows_Cons del: scan_rows.simps)
    with e m show ?thesis by (cases "start \<le> i") (simp_all add: drop_Cons')
  qed
qed

lemma fetch_scan_unfiltered:
  assumes "filter_fn q = None \<or> filter_fn q = Some (\<lambda>v. True)" and "continued q = None"
    and "reduce q = None"
  shows "result (fetch_scan q store start end rs) =
     JArr (drop start (take (case end of None \<Rightarrow> length rs | Some e \<Rightarrow> max 1 e)
                         (map (emitted q store) rs)))"
  using scan_rows_unfiltered[OF assms, of store start "end" 0 rs "[]" "[]"] assms(3)
  by (cases "end") (simp_all add: fetch_scan_def)

lemma emitted_filter: "emitted (q\<lparr>filter_fn := f\<rparr>) store = emitted q store"
  by (rule ext) (simp add: emitted_def mapped_def)

text \<open>
  So in collection mode the pushed down \<open>LIMIT\<close> and \<open>OFFSET\<close> give what the scan gives
  with a filter that never rejects, except where \<open>max\<close> is 0, nothing is skipped and there
  is a row.
\<close>

lemma fetch_pushdown_agrees:
  assumes nf: "filter_fn q = None" and nc: "continued q = None" and nr: "reduce q = None"
    and ok: "mx \<noteq> Some 0 \<or> fetch_start skip > 0 \<or> candidates = []"
  shows "run_fetch schema candidates q mx skip =
         run_fetch schema candidates (q\<lparr>filter_fn := Some (\<lambda>v. True)\<rparr>) mx skip"
proof (cases "getStore schema (store_name q)")
  case None
  then show ?thesis by (simp add: run_fetch_def fetch_def)
next
  case (Some store)
  let ?q' = "q\<lparr>filter_fn := Some (\<lambda>v. True)\<rparr>"
  let ?start = "fetch_start skip"
  let ?vals = "map (emitted q store) candidates"
  let ?p = "fetch_plan store q mx skip"
  let ?p' = "fetch_plan store ?q' mx skip"
  have down: "limit_offset (plan_stmt ?p) candidates =
      (case mx of None \<Rightarrow> drop ?start candidates | Some m \<Rightarrow> take m (drop ?start candidates))"
    "plan_start ?p = 0" "plan_end ?p = None"
    using nf nc by (auto simp: fetch_plan_def limit_offset_def fetch_end_def Let_def split: option.splits)
  have post: "limit_offset (plan_stmt ?p') candidates = candidates"
    "plan_start ?p' = ?start" "plan_end ?p' = fetch_end mx skip"
    by (simp_all add: fetch_plan_def limit_offset_def Let_def)
  have l: "result (fetch_scan q store 0 None (limit_offset (plan_stmt ?p) candidates)) =
      JArr (case mx of None \<Rightarrow> drop ?start ?vals | Some m \<Rightarrow> take m (drop ?start ?vals))"
    using fetch_scan_unfiltered[of q store 0 None] nf nc nr
    by (simp add: down take_map drop_map split: option.splits)
  have r: "result (fetch_scan ?q' store ?start (fetch_end mx skip) candidates) =
      JArr (case mx of None \<Rightarrow> drop ?start ?vals | Some m \<Rightarrow> take m (drop ?start ?vals))"
  proof (cases mx)
    case None
    then show ?thesis
      using fetch_scan_unfiltered[of ?q' store ?start None candidates] nc nr
      by (simp add: fetch_end_def emitted_filter)
  next
    case (Some m)
    have "drop ?start (take (max 1 (?start + m)) ?vals) = take m (drop ?start ?vals)"
    proof (cases "?start + m = 0")
      case True
      with ok Some have "candidates = []" by simp
      then show ?thesis by simp
    next
      case False
      then have "max 1 (?start + m) = ?start + m" by arith
      then show ?thesis by (simp add: drop_take)
    qed
    then show ?thesis
      using fetch_scan_unfiltered[of ?q' store ?start "Some (?start + m)" candidates] nc nr Some
      by (simp add: fetch_end_def emitted_filter)
  qed
  show ?thesis
    using Some l r down post
    by (simp add: run_fetch_def fetch_def complete_call_def engine_select_def fetch_callback_def Let_def)
qed

text \<open>
  C5. The claim: without filter and continuation predicate, \<open>fetch\<close> delivers, for every
  \<open>max\<close> and \<open>skip\<close>, what it delivers with a filter that never rejects. With \<open>max = 0\<close>
  and no \<open>skip\<close> it does not. Without filter the statement ends in \<open>LIMIT 0\<close> and the
  result is empty. With the filter the scan has \<open>end = 0\<close>; it pushes the first row before
  it tests \<open>idx + 1 < end\<close>, and delivers one row.
\<close>

theorem fetch_max_0_differs_with_filter:
  "run_fetch [users] [user_row 1 (JNum 30)]
     (new_IterableQuery ''users'' None None None None) (Some 0) None
     = Inr (Callback (JArr [])) \<and>
   run_fetch [users] [user_row 1 (JNum 30)]
     (new_IterableQuery ''users'' None None (Some (\<lambda>v. True)) None) (Some 0) None
     = Inr (Callback (JArr [JObj (user 1 (JNum 30))]))"
  by code_simp

section \<open>Stores that the schema does not have\<close>

text \<open>
  C4. The claim: every operation raises \<open>NotFoundError\<close> for a store that the schema does
  not have. \<open>putObject\<close> and \<open>getById\<close> do; \<open>removeById\<close> and \<open>fetch\<close> have no such test and
  fail with a \<open>TypeError\<close> on the store they did not find.
\<close>

theorem removeById_and_fetch_raise_TypeError:
  "removeById [users] ''nosuch'' (JNum 1) = Inl TypeError \<and>
   fetch [users] (new_IterableQuery ''nosuch'' None None None None) None None = Inl TypeError \<and>
   putObject [users] ''nosuch'' (user 1 (JNum 30)) = Inl (NotFoundError ''nosuch'') \<and>
   getById [users] ''nosuch'' (JNum 1) = Inl (NotFoundError ''nosuch'')"
  by (simp add: removeById_def fetch_def putObject_def getById_def getStore_def users_def
        new_IterableQuery_def)

section \<open>Completion in the in-memory adapter\<close>

text \<open>
  C3, as claimed: \<open>doTransaction\<close> does not invoke \<open>oncompleted\<close> before it returns. It
  does: at its return from an empty state, with callbacks that do nothing, \<open>oncompleted\<close>
  has been invoked.
\<close>

theorem doTransaction_not_deferred_counterexample:
  "InvokedOnCompleted COMPLETE \<in>
     set (invoked (snd (doTransaction empty_body [] True ignore_completion fresh_state)))"
  by (simp add: doTransaction_def invoke_def empty_body_def ignore_completion_def fresh_state_def)

text \<open>
  C3, amended. If the body returns normally, \<open>doTransaction\<close> of the in-memory adapter has
  invoked the body and then \<open>oncompleted\<close> with \<open>COMPLETE\<close>, once each and in this order,
  when it returns or when \<open>oncompleted\<close> throws: what leaves it is what \<open>oncompleted\<close>
  yields, on the state that the body left. If the body throws, its exception leaves
  \<open>doTransaction\<close> and \<open>oncompleted\<close> is not invoked.
\<close>

theorem doTransaction_completes_before_return:
  "(\<forall>c h. trFn (cache s, heap s) = (None, c, h) \<longrightarrow>
      invoked (snd (doTransaction trFn scopes read_write oncompleted s)) =
        invoked s @ [InvokedBody, InvokedOnCompleted COMPLETE] \<and>
      (fst (doTransaction trFn scopes read_write oncompleted s),
       cache (snd (doTransaction trFn scopes read_write oncompleted s)),
       heap (snd (doTransaction trFn scopes read_write oncompleted s))) =
        oncompleted COMPLETE (c, h)) \<and>
   (\<forall>e c h. trFn (cache s, heap s) = (Some e, c, h) \<longrightarrow>
      doTransaction trFn scopes read_write oncompleted s =
        (Some e, s\<lparr>cache := c, heap := h, invoked := invoked s @ [InvokedBody]\<rparr>))"
  by (auto simp: doTransaction_def invoke_def split: prod.splits option.splits)

theorem doTransaction_completes_before_return_witness:
  "empty_body (cache fresh_state, heap fresh_state) = (None, Map.empty, ()) \<and>
   invoked (snd (doTransaction empty_body [] True ignore_completion fresh_state)) =
     [InvokedBody, InvokedOnCompleted COMPLETE] \<and>
   fst (doTransaction empty_body [] True ignore_completion fresh_state) = None \<and>
   throwing_body (cache fresh_state, heap fresh_state) =
     (Some (Error ''failed''), [''k'' \<mapsto> ''v''], ()) \<and>
   fst (doTransaction throwing_body [] True ignore_completion fresh_state) =
     Some (Error ''failed'') \<and>
   invoked (snd (doTransaction throwing_body [] True ignore_completion fresh_state)) =
     [InvokedBody]"
proof -
  have h1: "empty_body (cache fresh_state, heap fresh_state) = (None, Map.empty, ())"
    by (simp add: empty_body_def fresh_state_def)
  have h2: "throwing_body (cache fresh_state, heap fresh_state) =
      (Some (Error ''failed''), [''k'' \<mapsto> ''v''], ())"
    by (simp add: throwing_body_def fresh_state_def)
  note t1 = doTransaction_completes_before_return
    [of empty_body fresh_state "[]" True ignore_completion]
  note t2 = doTransaction_completes_before_return
    [of throwing_body fresh_state "[]" True ignore_completion]
  from t1 h1
  have a: "invoked (snd (doTransaction empty_body [] True ignore_completion fresh_state)) =
      invoked fresh_state @ [InvokedBody, InvokedOnCompleted COMPLETE]"
    and b: "fst (doTransaction empty_body [] True ignore_completion fresh_state) =
      fst (ignore_completion COMPLETE (Map.empty, ()))"
    by (metis fst_conv)+
  from t2 h2
  have c: "doTransaction throwing_body [] True ignore_completion fresh_state =
      (Some (Error ''failed''),
       fresh_state\<lparr>cache := [''k'' \<mapsto> ''v''], heap := (), invoked := invoked fresh_state @ [InvokedBody]\<rparr>)"
    by blast
  from a b c h1 h2 show ?thesis
    by (simp add: fresh_state_def ignore_completion_def)
qed

section \<open>Batch operations\<close>

subsection \<open>The invariant\<close>







lemma complete_not_in_flight: "i \<notin> set (in_flight s) \<Longrightarrow> complete op answer s i = s"
  by (simp add: complete_def)






subsection \<open>Runs\<close>


lemma foldl_complete_idle:
  "in_flight s = [] \<Longrightarrow> foldl (complete op answer) s sched = s"
  by (induction sched) (simp_all add: complete_not_in_flight)

lemma run_batch_empty:
  "n_items op = 0 \<Longrightarrow>
     run_batch op answer sched = batch_init\<lparr>delivered := [Callback (JArr [])]\<rparr>"
  by (simp add: run_batch_def batch_start_def foldl_complete_idle batch_init_def)









subsection \<open>Single resolution\<close>



lemma complete_thrown: "thrown s \<noteq> None \<Longrightarrow> complete op answer s i = s"
  by (simp add: complete_def)

lemma foldl_complete_thrown:
  "thrown s \<noteq> None \<Longrightarrow> foldl (complete op answer) s sched = s"
  by (induction sched) (simp_all add: complete_thrown)


text \<open>Whatever the engine does afterwards, that deferred is never called.\<close>

lemma getByKeys_unknown_store_never_resolves:
  "delivered (run_batch (getByKeys [users] keys_unknown_store) answer sched) = []"
proof -
  have t: "thrown (batch_start (getByKeys [users] keys_unknown_store)) \<noteq> None" by code_simp
  have d: "delivered (batch_start (getByKeys [users] keys_unknown_store)) = []" by code_simp
  from foldl_complete_thrown[OF t] d show ?thesis by (simp add: run_batch_def)
qed




text \<open>
  The engine's side is needed: were the engine to go on after a failed request, a second
  failure would call the error handler again.
\<close>

lemma errback_twice_if_engine_goes_on:
  "\<not> stops_at_error both_fail [0, 1] \<and>
   delivered (run_batch (putObjects_op users three_users) both_fail [0, 1]) =
     [Errback (SQLError ''disk full''), Errback (SQLError ''constraint failed'')]"
  by code_simp

subsection \<open>Request order\<close>






subsection \<open>Empty input\<close>

text \<open>
  C10. With an empty input array, and for \<open>putObjects\<close> and \<open>getByIds\<close> a store of the
  schema, the operation calls its deferred back with an empty array at once, hands no
  statement to the engine, and nothing that the engine does afterwards changes that.
\<close>

theorem empty_batch_resolves_at_once:
  assumes "getStore schema t = Some table"
  shows "putObjects schema t [] = Inr (putObjects_op table []) \<and>
         delivered (batch_start (putObjects_op table [])) = [Callback (JArr [])] \<and>
         issued (batch_start (putObjects_op table [])) = [] \<and>
         run_batch (putObjects_op table []) answer sched = batch_start (putObjects_op table []) \<and>
         getByIds schema t [] = Inr (getByIds_op table []) \<and>
         delivered (batch_start (getByIds_op table [])) = [Callback (JArr [])] \<and>
         issued (batch_start (getByIds_op table [])) = [] \<and>
         run_batch (getByIds_op table []) answer sched = batch_start (getByIds_op table []) \<and>
         delivered (batch_start (getByKeys schema [])) = [Callback (JArr [])] \<and>
         issued (batch_start (getByKeys schema [])) = [] \<and>
         run_batch (getByKeys schema []) answer sched = batch_start (getByKeys schema [])"
proof -
  have start: "batch_start op = batch_init\<lparr>delivered := [Callback (JArr [])]\<rparr>"
    if "n_items op = 0" for op
    using that by (simp add: batch_start_def)
  have p: "n_items (putObjects_op table []) = 0" by (simp add: putObjects_op_def)
  have g: "n_items (getByIds_op table []) = 0" by (simp add: getByIds_op_def)
  have k: "n_items (getByKeys schema []) = 0" by (simp add: getByKeys_def)
  show ?thesis
    using assms
    by (simp add: putObjects_def getByIds_def run_batch_empty[OF p] run_batch_empty[OF g]
          run_batch_empty[OF k] start[OF p] start[OF g] start[OF k] batch_init_def)
qed

theorem empty_batch_resolves_at_once_witness:
  "getStore [users] ''users'' = Some users \<and>
   putObjects [users] ''users'' [] = Inr (putObjects_op users []) \<and>
   delivered (batch_start (putObjects_op users [])) = [Callback (JArr [])] \<and>
   issued (batch_start (putObjects_op users [])) = [] \<and>
   run_batch (putObjects_op users []) answers_513 [0, 1] = batch_start (putObjects_op users [])"
proof -
  have h: "getStore [users] ''users'' = Some users" by (simp add: getStore_def users_def)
  from empty_batch_resolves_at_once[OF h, of answers_513 "[0, 1]"] h show ?thesis by blast
qed

section \<open>Row decoding\<close>

lemma js_get_js_set: "js_get (js_set ps k v) f = (if f = k then v else js_get ps f)"
  by (simp add: js_get_def js_set_def update_conv')

lemma js_get_parseRow_index:
  "js_get (parseRow_index row val ix) f =
     (if f = idx_name ix \<and> idx_name ix \<noteq> DEFAULT_BLOB_COLUMN \<and> isDef (js_get row (idx_name ix))
      then coerce (idx_type ix) (js_get row (idx_name ix)) else js_get val f)"
  by (cases "idx_type ix") (simp_all add: parseRow_index_def Let_def js_get_js_set)

lemma js_get_indexes_skipped:
  "\<forall>ix \<in> set ixs. idx_name ix = f \<longrightarrow> f = DEFAULT_BLOB_COLUMN \<or> \<not> isDef (js_get row f) \<Longrightarrow>
     js_get (foldl (parseRow_index row) val ixs) f = js_get val f"
  by (induction ixs arbitrary: val) (auto simp: js_get_parseRow_index)

lemma js_get_indexes_coerced:
  "distinct (map idx_name ixs) \<Longrightarrow> ix \<in> set ixs \<Longrightarrow> idx_name ix \<noteq> DEFAULT_BLOB_COLUMN \<Longrightarrow>
     isDef (js_get row (idx_name ix)) \<Longrightarrow>
     js_get (foldl (parseRow_index row) val ixs) (idx_name ix) =
       coerce (idx_type ix) (js_get row (idx_name ix))"
proof (induction ixs arbitrary: val)
  case Nil
  then show ?case by simp
next
  case (Cons a ixs)
  show ?case
  proof (cases "ix = a")
    case True
    from Cons.prems(1) have "idx_name a \<notin> idx_name ` set ixs" by simp
    then have "\<forall>b \<in> set ixs. idx_name b \<noteq> idx_name a" by (metis image_eqI)
    then have "js_get (foldl (parseRow_index row) (parseRow_index row val a) ixs) (idx_name a) =
        js_get (parseRow_index row val a) (idx_name a)"
      by (intro js_get_indexes_skipped) auto
    with True Cons.prems(3,4) show ?thesis by (simp add: js_get_parseRow_index)
  next
    case False
    with Cons.prems have "ix \<in> set ixs" "distinct (map idx_name ixs)" by simp_all
    from Cons.IH[OF this(2) this(1) Cons.prems(3,4)] show ?thesis by simp
  qed
qed

text \<open>
  \<open>parseInt\<close> leaves a safe integer as it is and reads the digits of one; beyond the safe
  integers its result is not computed.
\<close>

lemma parseInt_safe_integer: "safe_integer n \<Longrightarrow> parseInt (JNum n) = JNum n"
  by simp

lemma parseInt_examples:
  "parseInt (JStr ''30'') = JNum 30 \<and>
   parseInt (JStr '' -12px'') = JNum (- 12) \<and>
   parseInt (JStr ''abc'') = JNaN \<and>
   parseInt JNull = JNaN \<and>
   parseInt (JNum (10 ^ 21)) = JParseInt (JNum (10 ^ 21)) \<and>
   parseInt (JStr ''9007199254740993'') = JParseInt (JStr ''9007199254740993'')"
  by code_simp

text \<open>
  C8. For a store whose indexes have distinct names and any native row, the object that
  \<open>parseRow\<close> returns has the key cell of the row under the key path (where no index has
  the name of the key path); under the name of each index whose cell the row defines, it
  has that cell coerced by the declared type, with \<open>parseInt\<close> for an integer index, with
  \<open>parseFloat\<close> for a floating point index, and unchanged otherwise; every other property
  is as in the stored object. With the index \<open>age\<close> declared integer, putting
  \<open>{id: 1, age: "30"}\<close> and getting the id 1 yields \<open>{id: 1, age: 30}\<close>.
\<close>

theorem parseRow_reinstates_key_and_coerces_indexes:
  assumes "distinct (map idx_name (indexes table))"
  shows "(\<forall>kp. keyPath table = Some kp \<and> kp \<notin> idx_name ` set (indexes table) \<longrightarrow>
            js_get (parseRow table row) kp = js_get row kp) \<and>
         (\<forall>ix \<in> set (indexes table).
            idx_name ix \<noteq> DEFAULT_BLOB_COLUMN \<and> isDef (js_get row (idx_name ix)) \<longrightarrow>
            js_get (parseRow table row) (idx_name ix) =
              coerce (idx_type ix) (js_get row (idx_name ix))) \<and>
         (\<forall>f. Some f \<noteq> keyPath table \<and>
              (\<forall>ix \<in> set (indexes table).
                  idx_name ix = f \<longrightarrow> f = DEFAULT_BLOB_COLUMN \<or> \<not> isDef (js_get row f)) \<longrightarrow>
            js_get (parseRow table row) f = js_get (json_parse (js_get row DEFAULT_BLOB_COLUMN)) f) \<and>
         put_then_get [users] ''users'' (user 1 (JStr ''30'')) (JNum 1) =
           Some (Inr (Callback (JObj (user 1 (JNum 30)))))"
proof (intro conjI allI ballI impI)
  fix kp assume "keyPath table = Some kp \<and> kp \<notin> idx_name ` set (indexes table)"
  then have kp: "keyPath table = Some kp" and "\<forall>ix \<in> set (indexes table). idx_name ix \<noteq> kp" by auto
  then have "js_get (parseRow table row) kp =
      js_get (setKey table (json_parse (js_get row DEFAULT_BLOB_COLUMN)) (row_key table row)) kp"
    unfolding parseRow_def Let_def by (intro js_get_indexes_skipped) auto
  with kp show "js_get (parseRow table row) kp = js_get row kp"
    by (simp add: setKey_def row_key_def js_get_js_set)
next
  fix ix assume "ix \<in> set (indexes table)"
    and "idx_name ix \<noteq> DEFAULT_BLOB_COLUMN \<and> isDef (js_get row (idx_name ix))"
  with assms show "js_get (parseRow table row) (idx_name ix) =
      coerce (idx_type ix) (js_get row (idx_name ix))"
    unfolding parseRow_def Let_def by (intro js_get_indexes_coerced) auto
next
  fix f assume a: "Some f \<noteq> keyPath table \<and>
     (\<forall>ix \<in> set (indexes table). idx_name ix = f \<longrightarrow> f = DEFAULT_BLOB_COLUMN \<or> \<not> isDef (js_get row f))"
  then have "js_get (parseRow table row) f =
      js_get (setKey table (json_parse (js_get row DEFAULT_BLOB_COLUMN)) (row_key table row)) f"
    unfolding parseRow_def Let_def by (intro js_get_indexes_skipped) auto
  with a show "js_get (parseRow table row) f = js_get (json_parse (js_get row DEFAULT_BLOB_COLUMN)) f"
    by (auto simp: setKey_def js_get_js_set split: option.splits)
next
  show "put_then_get [users] ''users'' (user 1 (JStr ''30'')) (JNum 1) =
           Some (Inr (Callback (JObj (user 1 (JNum 30)))))"
    by code_simp
qed

theorem parseRow_reinstates_key_and_coerces_indexes_witness:
  "distinct (map idx_name (indexes users)) \<and>
   keyPath users = Some ''id'' \<and>
   js_get (parseRow users (user_row 1 (JStr ''30''))) ''id'' = JNum 1 \<and>
   js_get (parseRow users (user_row 1 (JStr ''30''))) ''age'' = JNum 30 \<and>
   parseRow users (user_row 1 (JStr ''30'')) = user 1 (JNum 30)"
proof -
  let ?row = "user_row 1 (JStr ''30'')"
  let ?age = "\<lparr>idx_name = ''age'', idx_type = INTEGER, idx_unique = False\<rparr>"
  have h: "distinct (map idx_name (indexes users))" by (simp add: users_def)
  have k: "keyPath users = Some ''id''" by (simp add: users_def)
  have k': "''id'' \<notin> idx_name ` set (indexes users)" by (simp add: users_def)
  have i: "?age \<in> set (indexes users)" by (simp add: users_def)
  have d: "idx_name ?age \<noteq> DEFAULT_BLOB_COLUMN \<and> isDef (js_get ?row (idx_name ?age))"
    by (simp add: DEFAULT_BLOB_COLUMN_def isDef_def js_get_def user_row_def)
  have r1: "js_get ?row ''id'' = JNum 1" by (simp add: js_get_def user_row_def)
  have r2: "coerce (idx_type ?age) (js_get ?row (idx_name ?age)) = JNum 30" by code_simp
  have r3: "parseRow users ?row = user 1 (JNum 30)" by code_simp
  note t = parseRow_reinstates_key_and_coerces_indexes[OF h, of ?row]
  from t k k' have "js_get (parseRow users ?row) ''id'' = js_get ?row ''id''" by blast
  with r1 have a: "js_get (parseRow users ?row) ''id'' = JNum 1" by simp
  from t i d have "js_get (parseRow users ?row) (idx_name ?age) =
      coerce (idx_type ?age) (js_get ?row (idx_name ?age))" by blast
  with r2 have b: "js_get (parseRow users ?row) ''age'' = JNum 30" by simp
  from h k a b r3 show ?thesis by blast
qed

end
